theory Spec2Isabelle
  imports Main "HOL-Library.Code_Target_Nat"
begin

section \<open>JavaScript strings\<close>

text \<open>
  A JavaScript string is a sequence of UTF-16 code units. A code unit is modelled by its
  numeric value, a string by the list of its code units, so that \<open>length\<close> is the
  \<^verbatim>\<open>.length\<close> of the source. String literals of the source are written with \<open>lit\<close>.
\<close>

type_synonym code_unit = nat
type_synonym jsstring = "code_unit list"

definition lit :: "string \<Rightarrow> jsstring" where
  "lit s = map of_char s"

text \<open>The double quote, which the template literals of the source print around a name.\<close>

definition dquote :: jsstring where
  "dquote = [34]"

text \<open>
  \<^verbatim>\<open>String.prototype.trim\<close> strips WhiteSpace and LineTerminator code points from both
  ends: TAB, LF, VT, FF, CR, SPACE, NBSP, U+1680, U+2000..U+200A, U+2028, U+2029, U+202F,
  U+205F, U+3000 and U+FEFF.
\<close>

definition is_white_space :: "code_unit \<Rightarrow> bool" where
  "is_white_space c =
     (c = 0x09 \<or> c = 0x0A \<or> c = 0x0B \<or> c = 0x0C \<or> c = 0x0D \<or> c = 0x20 \<or> c = 0xA0 \<or>
      c = 0x1680 \<or> (0x2000 \<le> c \<and> c \<le> 0x200A) \<or> c = 0x2028 \<or> c = 0x2029 \<or>
      c = 0x202F \<or> c = 0x205F \<or> c = 0x3000 \<or> c = 0xFEFF)"

definition str_trim :: "jsstring \<Rightarrow> jsstring" where
  "str_trim s = rev (dropWhile is_white_space (rev (dropWhile is_white_space s)))"

text \<open>\<open>starts_with s t\<close>: \<open>t\<close> occurs in \<open>s\<close> at index 0.\<close>

fun starts_with :: "jsstring \<Rightarrow> jsstring \<Rightarrow> bool" where
  "starts_with s [] = True"
| "starts_with [] (b # t) = False"
| "starts_with (a # s) (b # t) = (a = b \<and> starts_with s t)"

text \<open>\<^verbatim>\<open>String.prototype.includes\<close>: the search string occurs at some index.\<close>

fun str_includes :: "jsstring \<Rightarrow> jsstring \<Rightarrow> bool" where
  "str_includes [] t = starts_with [] t"
| "str_includes (a # s) t = (starts_with (a # s) t \<or> str_includes s t)"

text \<open>
  \<^verbatim>\<open>String.prototype.split\<close> with a string separator: the substrings between the
  occurrences of the separator, found from left to right; with the empty separator, the
  code units one by one.
\<close>

function split_from :: "jsstring \<Rightarrow> jsstring \<Rightarrow> jsstring \<Rightarrow> jsstring list" where
  "split_from sep acc [] = [rev acc]"
| "split_from sep acc (c # cs) =
     (if sep \<noteq> [] \<and> starts_with (c # cs) sep
      then rev acc # split_from sep [] (drop (length sep) (c # cs))
      else split_from sep (c # acc) cs)"
  by pat_completeness auto
termination
  by (relation "measure (\<lambda>(sep, acc, s). length s)") auto

definition str_split :: "jsstring \<Rightarrow> jsstring \<Rightarrow> jsstring list" where
  "str_split s sep = (if sep = [] then map (\<lambda>c. [c]) s else split_from sep [] s)"

text \<open>\<^verbatim>\<open>.replace(/\+/g, ' ')\<close>: every plus sign becomes a space.\<close>

definition replace_plus :: "jsstring \<Rightarrow> jsstring" where
  "replace_plus s = map (\<lambda>c. if c = 0x2B then 0x20 else c) s"

text \<open>
  \<^verbatim>\<open>url.match(/\/place\/([^\/]+)/)\<close>: the leftmost index at which \<^verbatim>\<open>/place/\<close> is followed
  by at least one code unit other than the slash; the capture group is the longest run of
  such code units there. The result is the capture group, or \<open>None\<close> for \<^verbatim>\<open>null\<close>.
\<close>

fun placeMatch :: "jsstring \<Rightarrow> jsstring option" where
  "placeMatch [] = None"
| "placeMatch (c # cs) =
     (if starts_with (c # cs) (lit ''/place/'') \<and>
         takeWhile (\<lambda>x. x \<noteq> 0x2F) (drop 7 (c # cs)) \<noteq> []
      then Some (takeWhile (\<lambda>x. x \<noteq> 0x2F) (drop 7 (c # cs)))
      else placeMatch cs)"

text \<open>Number to string, for the natural numbers the source prints: decimal digits.\<close>

fun number_to_string :: "nat \<Rightarrow> jsstring" where
  "number_to_string n =
     (if n < 10 then [48 + n] else number_to_string (n div 10) @ [48 + n mod 10])"

declare number_to_string.simps [simp del]

subsection \<open>decodeURIComponent\<close>

text \<open>
  The built-in \<^verbatim>\<open>decodeURIComponent\<close> (ECMA-262, Decode with an empty set of preserved
  escapes) throws a URIError on a percent sign that is not followed by two hexadecimal
  digits and on escaped octets that are not well-formed UTF-8; a decoded code point is
  appended in UTF-16.
\<close>

datatype js_error = URIError

definition hex_digit :: "code_unit \<Rightarrow> nat option" where
  "hex_digit c =
     (if 0x30 \<le> c \<and> c \<le> 0x39 then Some (c - 0x30)
      else if 0x41 \<le> c \<and> c \<le> 0x46 then Some (c - 0x37)
      else if 0x61 \<le> c \<and> c \<le> 0x66 then Some (c - 0x57)
      else None)"

text \<open>ParseHexOctet on the code units that follow a percent sign.\<close>

fun parse_hex_octet :: "jsstring \<Rightarrow> nat option" where
  "parse_hex_octet (h # l # rest) =
     (case hex_digit h of
        None \<Rightarrow> None
      | Some a \<Rightarrow> (case hex_digit l of None \<Rightarrow> None | Some b \<Rightarrow> Some (16 * a + b)))"
| "parse_hex_octet s = None"

text \<open>The number of leading 1 bits of an octet (5 stands for five or more).\<close>

definition leading_ones :: "nat \<Rightarrow> nat" where
  "leading_ones b =
     (if b < 0x80 then 0 else if b < 0xC0 then 1 else if b < 0xE0 then 2
      else if b < 0xF0 then 3 else if b < 0xF8 then 4 else 5)"

text \<open>The \<open>j\<close> escaped continuation octets \<^verbatim>\<open>%XX\<close> at the start of a string.\<close>

fun continuation_octets :: "nat \<Rightarrow> jsstring \<Rightarrow> nat list option" where
  "continuation_octets j s =
     (if j = 0 then Some []
      else case s of
             [] \<Rightarrow> None
           | p # rest \<Rightarrow>
               if p \<noteq> 0x25 then None
               else case parse_hex_octet rest of
                      None \<Rightarrow> None
                    | Some b \<Rightarrow>
                        (case continuation_octets (j - 1) (drop 2 rest) of
                           None \<Rightarrow> None
                         | Some bs \<Rightarrow> Some (b # bs)))"

declare continuation_octets.simps [simp del]

definition is_cont :: "nat \<Rightarrow> bool" where
  "is_cont b = (0x80 \<le> b \<and> b \<le> 0xBF)"

text \<open>Well-formed UTF-8 sequences of two, three and four octets (Unicode, table 3-7).\<close>

fun valid_utf8 :: "nat list \<Rightarrow> bool" where
  "valid_utf8 [b0, b1] = (0xC2 \<le> b0 \<and> b0 \<le> 0xDF \<and> is_cont b1)"
| "valid_utf8 [b0, b1, b2] =
     (((b0 = 0xE0 \<and> 0xA0 \<le> b1 \<and> b1 \<le> 0xBF) \<or>
       (0xE1 \<le> b0 \<and> b0 \<le> 0xEC \<and> is_cont b1) \<or>
       (b0 = 0xED \<and> 0x80 \<le> b1 \<and> b1 \<le> 0x9F) \<or>
       (0xEE \<le> b0 \<and> b0 \<le> 0xEF \<and> is_cont b1)) \<and> is_cont b2)"
| "valid_utf8 [b0, b1, b2, b3] =
     (((b0 = 0xF0 \<and> 0x90 \<le> b1 \<and> b1 \<le> 0xBF) \<or>
       (0xF1 \<le> b0 \<and> b0 \<le> 0xF3 \<and> is_cont b1) \<or>
       (b0 = 0xF4 \<and> 0x80 \<le> b1 \<and> b1 \<le> 0x8F)) \<and> is_cont b2 \<and> is_cont b3)"
| "valid_utf8 bs = False"

fun utf8_value :: "nat list \<Rightarrow> nat" where
  "utf8_value [b0, b1] = (b0 - 0xC0) * 0x40 + (b1 - 0x80)"
| "utf8_value [b0, b1, b2] = (b0 - 0xE0) * 0x1000 + (b1 - 0x80) * 0x40 + (b2 - 0x80)"
| "utf8_value [b0, b1, b2, b3] =
     (b0 - 0xF0) * 0x40000 + (b1 - 0x80) * 0x1000 + (b2 - 0x80) * 0x40 + (b3 - 0x80)"
| "utf8_value bs = 0"

definition utf16_encode :: "nat \<Rightarrow> jsstring" where
  "utf16_encode cp =
     (if cp < 0x10000 then [cp]
      else [0xD800 + (cp - 0x10000) div 0x400, 0xDC00 + (cp - 0x10000) mod 0x400])"

text \<open>Appending the decoded code units to what the rest of the string decodes to.\<close>

definition decoded_then :: "jsstring \<Rightarrow> js_error + jsstring \<Rightarrow> js_error + jsstring" where
  "decoded_then u r = (case r of Inl e \<Rightarrow> Inl e | Inr v \<Rightarrow> Inr (u @ v))"

fun decodeURIComponent :: "jsstring \<Rightarrow> js_error + jsstring" where
  "decodeURIComponent [] = Inr []"
| "decodeURIComponent (c # cs) =
     (if c \<noteq> 0x25 then decoded_then [c] (decodeURIComponent cs)
      else case parse_hex_octet cs of
             None \<Rightarrow> Inl URIError
           | Some b \<Rightarrow>
               (let n = leading_ones b in
                if n = 0 then decoded_then [b] (decodeURIComponent (drop 2 cs))
                else if n = 1 \<or> n > 4 then Inl URIError
                else case continuation_octets (n - 1) (drop 2 cs) of
                       None \<Rightarrow> Inl URIError
                     | Some bs \<Rightarrow>
                         if \<not> valid_utf8 (b # bs) then Inl URIError
                         else decoded_then (utf16_encode (utf8_value (b # bs)))
                                (decodeURIComponent (drop (3 * (n - 1)) (drop 2 cs)))))"

section \<open>The page and the console\<close>

text \<open>
  What \<^verbatim>\<open>getRestaurantNameOnly\<close> reads and writes: \<^verbatim>\<open>document.querySelector\<close> (the
  \<^verbatim>\<open>textContent\<close> of the first element a selector matches, \<open>None\<close> for \<^verbatim>\<open>null\<close>),
  \<^verbatim>\<open>document.title\<close>, \<^verbatim>\<open>window.location.href\<close>, and the console, a list of the
  argument lists of the calls of \<^verbatim>\<open>console.log\<close> so far. Whatever else the environment
  holds is the record's extension.
\<close>

record world =
  document_querySelector :: "jsstring \<Rightarrow> jsstring option"
  document_title :: jsstring
  location_href :: jsstring
  console :: "jsstring list list"

definition console_log :: "jsstring list \<Rightarrow> 'a world_scheme \<Rightarrow> 'a world_scheme" where
  "console_log args w = w\<lparr>console := console w @ [args]\<rparr>"

section \<open>getRestaurantNameOnly (popup.js)\<close>

text \<open>The selectors, in the order of the array (lines 218 to 239).\<close>

definition nameSelectors :: "jsstring list" where
  "nameSelectors =
     [lit ''h1[data-attrid='' @ dquote @ lit ''title'' @ dquote @ lit '']'',
      lit ''h1.x3AX1-LfntMc-header-title-title'',
      lit ''[data-value='' @ dquote @ lit ''title'' @ dquote @ lit '']'',
      lit ''[data-value='' @ dquote @ lit ''title'' @ dquote @ lit ''] span'',
      lit ''.DUwDvf.lfPIob'',
      lit ''.x3AX1-LfntMc-header-title-title span'',
      lit ''.fontHeadlineSmall'',
      lit ''h1'',
      lit ''[aria-level='' @ dquote @ lit ''1'' @ dquote @ lit '']'',
      lit ''.section-hero-header-title'',
      lit ''.section-hero-header-title span'',
      lit ''[role='' @ dquote @ lit ''main'' @ dquote @ lit ''] h1'',
      lit ''[role='' @ dquote @ lit ''main'' @ dquote @ lit ''] [aria-level='' @ dquote @
        lit ''1'' @ dquote @ lit '']'']"

text \<open>
  The filter on a structural candidate: the condition of the \<^verbatim>\<open>if\<close> in the loop (lines
  251 to 256); the empty string is falsy.
\<close>

definition valid_name :: "jsstring \<Rightarrow> bool" where
  "valid_name name =
     (name \<noteq> [] \<and>
      \<not> str_includes name (lit ''Google Maps'') \<and>
      \<not> str_includes name (lit ''Directions'') \<and>
      \<not> str_includes name (lit ''Reviews'') \<and>
      length name > 2 \<and>
      length name < 100)"

text \<open>
  A selector has a valid match on a page: it matches an element and the trimmed text of
  the element passes the filter.
\<close>

definition valid_match :: "'a world_scheme \<Rightarrow> jsstring \<Rightarrow> bool" where
  "valid_match w selector =
     (case document_querySelector w selector of
        None \<Rightarrow> False
      | Some textContent \<Rightarrow> valid_name (str_trim textContent))"

text \<open>
  The \<^verbatim>\<open>for\<close> loop over the selectors (lines 241 to 263), from index \<open>i\<close>:
  \<open>Some name\<close> when the loop returns a name, \<open>None\<close> when it runs to its end.
\<close>

function selector_loop :: "nat \<Rightarrow> 'a world_scheme \<Rightarrow> jsstring option \<times> 'a world_scheme" where
  "selector_loop i w =
     (if i < length nameSelectors then
        (let selector = nameSelectors ! i;
             w1 = console_log [lit ''Trying selector '' @ number_to_string (i + 1) @ lit ''/'' @
                    number_to_string (length nameSelectors) @ lit '': '' @ selector] w
         in case document_querySelector w1 selector of
              Some textContent \<Rightarrow>
                (let name = str_trim textContent;
                     w2 = console_log [lit ''Found element with text: '' @ dquote @ name @ dquote] w1
                 in if valid_name name
                    then (Some name,
                          console_log [lit ''Returning restaurant name: '' @ dquote @ name @ dquote] w2)
                    else selector_loop (i + 1) w2)
            | None \<Rightarrow>
                selector_loop (i + 1)
                  (console_log [lit ''No element found for selector: '' @ selector] w1))
      else (None, w))"
  by pat_completeness auto
termination
  by (relation "measure (\<lambda>(i, w). length nameSelectors - i)") auto

declare selector_loop.simps [simp del]

text \<open>
  The last resort, the name in the address (lines 276 to 287). The call of
  \<^verbatim>\<open>decodeURIComponent\<close> stands in no \<^verbatim>\<open>try\<close>: what it throws, the function throws.
\<close>

definition url_extraction ::
  "'a world_scheme \<Rightarrow> (js_error + jsstring option) \<times> 'a world_scheme" where
  "url_extraction w =
     (let w1 = console_log [lit ''Trying URL extraction...''] w;
          url = location_href w1
      in case placeMatch url of
           Some segment \<Rightarrow>
             (case decodeURIComponent segment of
                Inl e \<Rightarrow> (Inl e, w1)
              | Inr decoded \<Rightarrow>
                  (let urlName = replace_plus decoded
                   in (Inr (Some urlName),
                       console_log [lit ''Found name from URL: '' @ dquote @ urlName @ dquote] w1)))
         | None \<Rightarrow> (Inr None, console_log [lit ''No restaurant name found''] w1))"

text \<open>
  The page title as fallback (lines 265 to 274): what the title gives, \<open>None\<close> when the
  guard or the check on the first part fails (\<^verbatim>\<open>titleParts[0]\<close> of an empty array is
  \<^verbatim>\<open>undefined\<close>). When it gives nothing, the function goes on to the address.
\<close>

definition title_name :: "jsstring \<Rightarrow> jsstring option" where
  "title_name t =
     (if t \<noteq> [] \<and> \<not> str_includes t (lit ''Google Maps'')
      then (case str_split t (lit '' - '') of
              [] \<Rightarrow> None
            | part0 # parts \<Rightarrow>
                if part0 \<noteq> [] \<and> length (str_trim part0) > 2 then Some (str_trim part0)
                else None)
      else None)"

definition title_fallback ::
  "'a world_scheme \<Rightarrow> (js_error + jsstring option) \<times> 'a world_scheme" where
  "title_fallback w =
     (let w1 = console_log [lit ''Trying page title fallback...''] w
      in case title_name (document_title w1) of
           Some titleName \<Rightarrow>
             (Inr (Some titleName),
              console_log [lit ''Found name from title: '' @ dquote @ titleName @ dquote] w1)
         | None \<Rightarrow> url_extraction w1)"

text \<open>
  The function: the result is \<open>Inr (Some name)\<close> for a returned string, \<open>Inr None\<close> for
  \<^verbatim>\<open>null\<close> and \<open>Inl e\<close> for a thrown exception; the second component is the
  environment the call leaves.
\<close>

definition getRestaurantNameOnly ::
  "'a world_scheme \<Rightarrow> (js_error + jsstring option) \<times> 'a world_scheme" where
  "getRestaurantNameOnly w =
     (let w1 = console_log [lit ''Attempting to extract restaurant name...''] w;
          w2 = console_log [lit ''Current URL:'', location_href w1] w1;
          w3 = console_log [lit ''Page title:'', document_title w2] w2
      in case selector_loop 0 w3 of
           (Some name, w4) \<Rightarrow> (Inr (Some name), w4)
         | (None, w4) \<Rightarrow> title_fallback w4)"

section \<open>Example pages\<close>

text \<open>A page with an empty console, and the document in which no selector matches.\<close>

definition page :: "(jsstring \<Rightarrow> jsstring option) \<Rightarrow> jsstring \<Rightarrow> jsstring \<Rightarrow> world" where
  "page q t h =
     \<lparr>document_querySelector = q, document_title = t, location_href = h, console = []\<rparr>"

definition no_element :: "jsstring \<Rightarrow> jsstring option" where
  "no_element selector = None"

definition maps_title_page :: world where
  "maps_title_page =
     page no_element (lit ''Luigi's Pizzeria - Google Maps'')
       (lit ''https://www.google.com/maps/@40.7,-74.0,15z'')"

definition maps_title_place_page :: world where
  "maps_title_place_page =
     page no_element (lit ''Luigi's Pizzeria - Google Maps'')
       (lit ''https://www.google.com/maps/place/Trattoria+Roma/@41.9,12.5'')"

definition percent_page :: world where
  "percent_page =
     page no_element (lit ''Google Maps'')
       (lit ''https://www.google.com/maps/place/100%/@40.7,-74.0'')"

definition truncated_page :: world where
  "truncated_page =
     page no_element (lit ''Google Maps'')
       (lit ''https://www.google.com/maps/place/Caf%C3/@40.7,-74.0'')"

definition two_match_page :: world where
  "two_match_page =
     page (\<lambda>selector.
             if selector = lit ''.DUwDvf.lfPIob'' then Some (lit ''Reviews'')
             else if selector = lit ''h1'' then Some (lit ''  Luigi's Pizzeria '')
             else if selector = lit ''.section-hero-header-title'' then Some (lit ''Mario's Cafe'')
             else None)
       (lit ''Google Maps'') (lit ''https://www.google.com/maps'')"

definition boilerplate_page :: world where
  "boilerplate_page =
     page (\<lambda>selector.
             if selector = lit ''h1'' then Some (lit ''Reviews'')
             else if selector = lit ''.fontHeadlineSmall'' then Some (lit ''A'')
             else if selector = lit ''.DUwDvf.lfPIob'' then Some (replicate 150 0x61)
             else None)
       (lit ''Luigi's Pizzeria - Yelp'') (lit ''https://www.google.com/maps'')"

definition luigi_place_page :: world where
  "luigi_place_page =
     page no_element (lit ''Google Maps'')
       (lit ''https://www.google.com/maps/place/Luigi%27s+Pizzeria/@40.7,-74.0'')"

definition marker_title_page :: world where
  "marker_title_page =
     page no_element (lit ''Google Maps'')
       (lit ''https://www.google.com/maps/place/Blue+Bottle/@37.7,-122.4'')"

definition nowhere_page :: world where
  "nowhere_page =
     page no_element (lit ''Google Maps'') (lit ''https://www.google.com/maps/@40.7,-74.0,15z'')"

definition logged_page :: world where
  "logged_page = luigi_place_page\<lparr>console := [[lit ''Restaurant data loaded:'']]\<rparr>"

definition directions_title_page :: world where
  "directions_title_page =
     page no_element (lit ''Directions and Reviews'') (lit ''https://www.google.com/maps'')"

definition long_title_page :: world where
  "long_title_page = page no_element (replicate 120 0x61) (lit ''https://www.google.com/maps'')"

definition reviews_place_page :: world where
  "reviews_place_page =
     page no_element (lit ''Google Maps'') (lit ''https://www.google.com/maps/place/Reviews/'')"

definition long_place_page :: world where
  "long_place_page =
     page no_element (lit ''Google Maps'')
       (lit ''https://www.google.com/maps/place/'' @ replicate 120 0x61)"

definition plus_page :: world where
  "plus_page =
     page no_element (lit ''Google Maps'')
       (lit ''https://www.google.com/maps/place/+/@40.7,-74.0'')"

definition latin1_place_page :: world where
  "latin1_place_page =
     page no_element (lit ''Google Maps'')
       (lit ''https://www.google.com/maps/place/Caf%E9+Roma/@41.9,12.5'')"

definition utf8_place_page :: world where
  "utf8_place_page =
     page no_element (lit ''Google Maps'')
       (lit ''https://www.google.com/maps/place/Caf%C3%A9+%E2%82%AC+%F0%9F%8D%95/@41.9,12.5'')"

section \<open>The loop over the selectors and the console\<close>

lemma console_log_fields [simp]:
  "document_querySelector (console_log a w) = document_querySelector w"
  "document_title (console_log a w) = document_title w"
  "location_href (console_log a w) = location_href w"
  by (simp_all add: console_log_def)

lemma valid_match_console_log [simp]: "valid_match (console_log a w) s = valid_match w s"
  by (simp add: valid_match_def)

lemma selector_loop_end: "\<not> i < length nameSelectors \<Longrightarrow> selector_loop i w = (None, w)"
  by (simp add: selector_loop.simps [of i w])

lemma selector_loop_skip:
  assumes "i < length nameSelectors" and "\<not> valid_match w (nameSelectors ! i)"
  shows "\<exists>a b. selector_loop i w = selector_loop (Suc i) (console_log b (console_log a w))"
proof (cases "document_querySelector w (nameSelectors ! i)")
  case None
  with assms(1) show ?thesis
    by (subst selector_loop.simps) (simp add: Let_def, blast)
next
  case (Some t)
  with assms have "\<not> valid_name (str_trim t)"
    by (simp add: valid_match_def)
  with assms(1) Some show ?thesis
    by (subst selector_loop.simps) (simp add: Let_def, blast)
qed

lemma selector_loop_hit:
  assumes "i < length nameSelectors"
    and "document_querySelector w (nameSelectors ! i) = Some t"
    and "valid_name (str_trim t)"
  shows "\<exists>a b c. selector_loop i w =
           (Some (str_trim t), console_log c (console_log b (console_log a w)))"
  using assms by (subst selector_loop.simps) (simp add: Let_def, blast)

lemma appends_refl: "\<exists>l. w = w\<lparr>console := console w @ l\<rparr>"
  by (rule exI [of _ "[]"]) simp

lemma appends_log:
  assumes "\<exists>l. x = w\<lparr>console := console w @ l\<rparr>"
  shows "\<exists>l. console_log a x = w\<lparr>console := console w @ l\<rparr>"
proof -
  from assms obtain l where "x = w\<lparr>console := console w @ l\<rparr>"
    by blast
  then have "console_log a x = w\<lparr>console := console w @ (l @ [a])\<rparr>"
    by (simp add: console_log_def)
  then show ?thesis by blast
qed

lemma appends_trans:
  assumes "\<exists>l. x = w\<lparr>console := console w @ l\<rparr>"
    and "\<exists>l. y = x\<lparr>console := console x @ l\<rparr>"
  shows "\<exists>l. y = w\<lparr>console := console w @ l\<rparr>"
proof -
  from assms obtain l l' where "x = w\<lparr>console := console w @ l\<rparr>"
    and "y = x\<lparr>console := console x @ l'\<rparr>"
    by blast
  then have "y = w\<lparr>console := console w @ (l @ l')\<rparr>"
    by simp
  then show ?thesis by blast
qed

lemma selector_loop_appends: "\<exists>l. snd (selector_loop i w) = w\<lparr>console := console w @ l\<rparr>"
proof (induction "length nameSelectors - i" arbitrary: i w)
  case 0
  then show ?case
    by (simp add: selector_loop_end appends_refl)
next
  case (Suc n)
  then have i: "i < length nameSelectors" and n: "n = length nameSelectors - Suc i"
    by simp_all
  show ?case
  proof (cases "valid_match w (nameSelectors ! i)")
    case False
    from selector_loop_skip [OF i False] obtain a b where
      step: "selector_loop i w = selector_loop (Suc i) (console_log b (console_log a w))"
      by blast
    have "\<exists>l. console_log b (console_log a w) = w\<lparr>console := console w @ l\<rparr>"
      by (intro appends_log appends_refl)
    from appends_trans [OF this Suc.hyps(1) [OF n]] step show ?thesis
      by simp
  next
    case True
    then obtain t where t: "document_querySelector w (nameSelectors ! i) = Some t"
      and v: "valid_name (str_trim t)"
      by (auto simp: valid_match_def split: option.splits)
    from selector_loop_hit [OF i t v] obtain a b c where
      "selector_loop i w = (Some (str_trim t), console_log c (console_log b (console_log a w)))"
      by blast
    then show ?thesis
      by (simp add: appends_log appends_refl)
  qed
qed

lemma selector_loop_miss:
  "\<forall>k. i \<le> k \<and> k < length nameSelectors \<longrightarrow> \<not> valid_match w (nameSelectors ! k) \<Longrightarrow>
   fst (selector_loop i w) = None"
proof (induction "length nameSelectors - i" arbitrary: i w)
  case 0
  then show ?case by (simp add: selector_loop_end)
next
  case (Suc n)
  then have i: "i < length nameSelectors" and n: "n = length nameSelectors - Suc i"
    by simp_all
  from Suc.prems i have "\<not> valid_match w (nameSelectors ! i)"
    by simp
  from selector_loop_skip [OF i this] obtain a b where
    step: "selector_loop i w = selector_loop (Suc i) (console_log b (console_log a w))"
    by blast
  have "fst (selector_loop (Suc i) (console_log b (console_log a w))) = None"
    using Suc.prems by (intro Suc.hyps(1) [OF n]) simp
  with step show ?case by simp
qed

lemma selector_loop_first:
  assumes "j < length nameSelectors"
    and "document_querySelector w (nameSelectors ! j) = Some t"
    and "valid_name (str_trim t)"
    and "\<forall>k. i \<le> k \<and> k < j \<longrightarrow> \<not> valid_match w (nameSelectors ! k)"
    and "i \<le> j"
  shows "fst (selector_loop i w) = Some (str_trim t)"
  using assms
proof (induction "j - i" arbitrary: i w)
  case 0
  then have "i = j" by simp
  with selector_loop_hit [of j w t] 0 show ?case by auto
next
  case (Suc n)
  then have i: "i < length nameSelectors" and n: "n = j - Suc i" and lt: "i < j"
    by simp_all
  from Suc.prems lt have "\<not> valid_match w (nameSelectors ! i)"
    by simp
  from selector_loop_skip [OF i this] obtain a b where
    step: "selector_loop i w = selector_loop (Suc i) (console_log b (console_log a w))"
    by blast
  have "fst (selector_loop (Suc i) (console_log b (console_log a w))) = Some (str_trim t)"
    using Suc.prems lt by (intro Suc.hyps(1) [OF n]) simp_all
  with step show ?case by simp
qed


lemma selector_loop_cong:
  "document_querySelector w' = document_querySelector w \<Longrightarrow>
   fst (selector_loop i w') = fst (selector_loop i w)"
proof (induction "length nameSelectors - i" arbitrary: i w w')
  case 0
  then show ?case by (simp add: selector_loop_end)
next
  case (Suc n)
  then have i: "i < length nameSelectors" and n: "n = length nameSelectors - Suc i"
    by simp_all
  from Suc.prems have vm: "valid_match w' (nameSelectors ! i) = valid_match w (nameSelectors ! i)"
    by (simp add: valid_match_def)
  show ?case
  proof (cases "valid_match w (nameSelectors ! i)")
    case False
    from selector_loop_skip [OF i False] obtain a b where
      step: "selector_loop i w = selector_loop (Suc i) (console_log b (console_log a w))"
      by blast
    from False vm have "\<not> valid_match w' (nameSelectors ! i)"
      by simp
    from selector_loop_skip [OF i this] obtain a' b' where
      step': "selector_loop i w' = selector_loop (Suc i) (console_log b' (console_log a' w'))"
      by blast
    have "fst (selector_loop (Suc i) (console_log b' (console_log a' w'))) =
          fst (selector_loop (Suc i) (console_log b (console_log a w)))"
      using Suc.prems by (intro Suc.hyps(1) [OF n]) simp
    with step step' show ?thesis by simp
  next
    case True
    then obtain t where t: "document_querySelector w (nameSelectors ! i) = Some t"
      and v: "valid_name (str_trim t)"
      by (auto simp: valid_match_def split: option.splits)
    from t Suc.prems have t': "document_querySelector w' (nameSelectors ! i) = Some t"
      by simp
    from selector_loop_hit [OF i t v] selector_loop_hit [OF i t' v] show ?thesis
      by auto
  qed
qed

lemma url_extraction_result:
  "fst (url_extraction w) =
     (case placeMatch (location_href w) of
        None \<Rightarrow> Inr None
      | Some segment \<Rightarrow>
          (case decodeURIComponent segment of
             Inl e \<Rightarrow> Inl e
           | Inr decoded \<Rightarrow> Inr (Some (replace_plus decoded))))"
  by (simp add: url_extraction_def Let_def split: option.splits sum.splits)

lemma url_extraction_appends:
  "\<exists>l. snd (url_extraction w) = w\<lparr>console := console w @ l\<rparr>"
  by (simp add: url_extraction_def Let_def appends_log appends_refl
      split: option.splits sum.splits)

lemma title_fallback_result:
  "fst (title_fallback w) =
     (case title_name (document_title w) of
        Some titleName \<Rightarrow> Inr (Some titleName)
      | None \<Rightarrow> fst (url_extraction w))"
  by (simp add: title_fallback_def Let_def url_extraction_result split: option.splits)

lemma title_fallback_appends:
  "\<exists>l. snd (title_fallback w) = w\<lparr>console := console w @ l\<rparr>"
proof (cases "title_name (document_title w)")
  case None
  let ?w1 = "console_log [lit ''Trying page title fallback...''] w"
  have "\<exists>l. ?w1 = w\<lparr>console := console w @ l\<rparr>"
    by (intro appends_log appends_refl)
  from appends_trans [OF this url_extraction_appends] None show ?thesis
    by (simp add: title_fallback_def Let_def)
next
  case (Some titleName)
  then show ?thesis
    by (simp add: title_fallback_def Let_def appends_log appends_refl)
qed

lemma getRestaurantNameOnly_result:
  "fst (getRestaurantNameOnly w) =
     (case fst (selector_loop 0 w) of
        Some name \<Rightarrow> Inr (Some name)
      | None \<Rightarrow> fst (title_fallback w))"
proof -
  let ?w3 = "console_log [lit ''Page title:'', document_title w]
               (console_log [lit ''Current URL:'', location_href w]
                 (console_log [lit ''Attempting to extract restaurant name...''] w))"
  obtain r w4 where loop: "selector_loop 0 ?w3 = (r, w4)"
    by (cases "selector_loop 0 ?w3")
  have r: "r = fst (selector_loop 0 w)"
    using selector_loop_cong [of ?w3 w 0] loop by simp
  from selector_loop_appends [of 0 ?w3] loop obtain l where
    "w4 = ?w3\<lparr>console := console ?w3 @ l\<rparr>"
    by auto
  then have fields: "document_title w4 = document_title w" "location_href w4 = location_href w"
    by simp_all
  have run: "getRestaurantNameOnly w =
          (case r of Some name \<Rightarrow> (Inr (Some name), w4) | None \<Rightarrow> title_fallback w4)"
    using loop by (simp add: getRestaurantNameOnly_def Let_def)
  show ?thesis
    by (simp add: run r [symmetric] title_fallback_result url_extraction_result fields
        split: option.splits)
qed

lemma getRestaurantNameOnly_appends:
  "\<exists>l. snd (getRestaurantNameOnly w) = w\<lparr>console := console w @ l\<rparr>"
proof -
  let ?w3 = "console_log [lit ''Page title:'', document_title w]
               (console_log [lit ''Current URL:'', location_href w]
                 (console_log [lit ''Attempting to extract restaurant name...''] w))"
  obtain r w4 where loop: "selector_loop 0 ?w3 = (r, w4)"
    by (cases "selector_loop 0 ?w3")
  have "\<exists>l. ?w3 = w\<lparr>console := console w @ l\<rparr>"
    by (intro appends_log appends_refl)
  moreover from selector_loop_appends [of 0 ?w3] loop
  have "\<exists>l. w4 = ?w3\<lparr>console := console ?w3 @ l\<rparr>"
    by simp
  ultimately have w4: "\<exists>l. w4 = w\<lparr>console := console w @ l\<rparr>"
    by (rule appends_trans)
  have run: "getRestaurantNameOnly w =
          (case r of Some name \<Rightarrow> (Inr (Some name), w4) | None \<Rightarrow> title_fallback w4)"
    using loop by (simp add: getRestaurantNameOnly_def Let_def)
  show ?thesis
  proof (cases r)
    case (Some name)
    with run w4 show ?thesis by simp
  next
    case None
    with run appends_trans [OF w4 title_fallback_appends] show ?thesis by simp
  qed
qed

lemma no_valid_match_result:
  assumes "\<forall>s\<in>set nameSelectors. \<not> valid_match w s"
  shows "fst (getRestaurantNameOnly w) = fst (title_fallback w)"
proof -
  from assms have "fst (selector_loop 0 w) = None"
    by (intro selector_loop_miss) simp
  then show ?thesis
    by (simp add: getRestaurantNameOnly_result)
qed

section \<open>Facts about the stages\<close>

lemma no_element_no_valid_match:
  "document_querySelector w = no_element \<Longrightarrow> \<forall>s\<in>set nameSelectors. \<not> valid_match w s"
  by (simp add: valid_match_def no_element_def)

lemma page_fields [simp]:
  "document_querySelector (page q t h) = q"
  "document_title (page q t h) = t"
  "location_href (page q t h) = h"
  by (simp_all add: page_def)

lemma title_name_marker: "str_includes t (lit ''Google Maps'') \<Longrightarrow> title_name t = None"
  by (simp add: title_name_def)

lemma placeMatch_nonempty: "placeMatch u = Some segment \<Longrightarrow> segment \<noteq> []"
  by (induction u) (auto split: if_splits)

lemma decoded_then_nonempty: "decoded_then u r = Inr d \<Longrightarrow> u \<noteq> [] \<Longrightarrow> d \<noteq> []"
  by (auto simp: decoded_then_def split: sum.splits)

lemma decodeURIComponent_nonempty:
  assumes "decodeURIComponent s = Inr d" and "s \<noteq> []"
  shows "d \<noteq> []"
proof -
  from assms(2) obtain c cs where s: "s = c # cs"
    by (cases s) auto
  have enc: "utf16_encode v \<noteq> []" for v
    by (simp add: utf16_encode_def)
  from assms(1) show ?thesis
    unfolding s
    by (auto simp: Let_def enc split: if_splits option.splits dest!: decoded_then_nonempty)
qed

lemma getRestaurantNameOnly_cong:
  assumes "document_querySelector w' = document_querySelector w"
    and "document_title w' = document_title w"
    and "location_href w' = location_href w"
  shows "fst (getRestaurantNameOnly w') = fst (getRestaurantNameOnly w)"
  using assms selector_loop_cong [OF assms(1), of 0]
  by (simp add: getRestaurantNameOnly_result title_fallback_result url_extraction_result
      split: option.splits)

section \<open>The claims\<close>

subsection \<open>C1: a title that ends in the brand marker\<close>

text \<open>
  The claim says that the title \<^verbatim>\<open>Luigi's Pizzeria - Google Maps\<close> gives
  \<^verbatim>\<open>Luigi's Pizzeria\<close> by the split of the title. The guard of the title fallback
  rejects every title that contains \<^verbatim>\<open>Google Maps\<close>: on a page with that title, no
  element and an address without a place segment the function returns \<^verbatim>\<open>null\<close>.
\<close>


theorem marker_suffix_title_gives_null:
  "fst (getRestaurantNameOnly maps_title_page) = Inr None"
proof -
  have "\<forall>s\<in>set nameSelectors. \<not> valid_match maps_title_page s"
    by (rule no_element_no_valid_match) (simp add: maps_title_page_def)
  moreover have "title_name (document_title maps_title_page) = None"
    by code_simp
  moreover have "placeMatch (location_href maps_title_page) = None"
    by code_simp
  ultimately show ?thesis
    by (simp add: no_valid_match_result title_fallback_result url_extraction_result)
qed

text \<open>
  C1, as amended: on a page without a valid structural match whose title is
  \<^verbatim>\<open>Luigi's Pizzeria - Google Maps\<close>, the title gives no name and the result is the one
  of the extraction from the address.
\<close>

theorem marker_suffix_title_skipped:
  assumes "\<forall>s\<in>set nameSelectors. \<not> valid_match w s"
    and "document_title w = lit ''Luigi's Pizzeria - Google Maps''"
  shows "title_name (document_title w) = None \<and>
         fst (getRestaurantNameOnly w) = fst (url_extraction w)"
proof -
  have "str_includes (lit ''Luigi's Pizzeria - Google Maps'') (lit ''Google Maps'')"
    by code_simp
  with assms(2) have "title_name (document_title w) = None"
    by (simp add: title_name_marker)
  with assms(1) show ?thesis
    by (simp add: no_valid_match_result title_fallback_result)
qed

theorem marker_suffix_title_skipped_witness:
  "title_name (document_title maps_title_place_page) = None \<and>
   fst (getRestaurantNameOnly maps_title_place_page) = Inr (Some (lit ''Trattoria Roma''))"
proof -
  have no: "\<forall>s\<in>set nameSelectors. \<not> valid_match maps_title_place_page s"
    by (rule no_element_no_valid_match) (simp add: maps_title_place_page_def)
  have t: "document_title maps_title_place_page = lit ''Luigi's Pizzeria - Google Maps''"
    by (simp add: maps_title_place_page_def)
  have "placeMatch (location_href maps_title_place_page) = Some (lit ''Trattoria+Roma'')"
    by code_simp
  moreover have "decodeURIComponent (lit ''Trattoria+Roma'') = Inr (lit ''Trattoria+Roma'')"
    by code_simp
  moreover have "replace_plus (lit ''Trattoria+Roma'') = lit ''Trattoria Roma''"
    by code_simp
  ultimately have "fst (url_extraction maps_title_place_page) = Inr (Some (lit ''Trattoria Roma''))"
    by (simp add: url_extraction_result)
  with marker_suffix_title_skipped [OF no t] show ?thesis
    by simp
qed


subsection \<open>C2: exceptions\<close>

text \<open>
  The claim says that the function never throws. The call of \<^verbatim>\<open>decodeURIComponent\<close> is
  not guarded: a place segment with a percent sign that starts no escape makes it throw.
\<close>


theorem malformed_percent_throws:
  "fst (getRestaurantNameOnly percent_page) = Inl URIError"
proof -
  have "\<forall>s\<in>set nameSelectors. \<not> valid_match percent_page s"
    by (rule no_element_no_valid_match) (simp add: percent_page_def)
  moreover have "title_name (document_title percent_page) = None"
    by code_simp
  moreover have "placeMatch (location_href percent_page) = Some (lit ''100%'')"
    by code_simp
  moreover have "decodeURIComponent (lit ''100%'') = Inl URIError"
    by code_simp
  ultimately show ?thesis
    by (simp add: no_valid_match_result title_fallback_result url_extraction_result)
qed

text \<open>
  C2, as amended: the function throws exactly when no selector has a valid match, the
  title gives no name, the address has a place segment and \<^verbatim>\<open>decodeURIComponent\<close>
  throws on that segment; the exception is the one of \<^verbatim>\<open>decodeURIComponent\<close>.
\<close>

theorem raises_exactly_on_malformed_segment:
  "fst (getRestaurantNameOnly w) = Inl e \<longleftrightarrow>
     (\<forall>s\<in>set nameSelectors. \<not> valid_match w s) \<and>
     title_name (document_title w) = None \<and>
     (case placeMatch (location_href w) of
        None \<Rightarrow> False
      | Some segment \<Rightarrow> decodeURIComponent segment = Inl e)"
proof (cases "\<forall>s\<in>set nameSelectors. \<not> valid_match w s")
  case True
  then show ?thesis
    by (simp add: no_valid_match_result title_fallback_result url_extraction_result
        split: option.splits sum.splits)
next
  case False
  then obtain s where s: "s \<in> set nameSelectors" and v: "valid_match w s"
    by blast
  define j where "j = (LEAST k. k < length nameSelectors \<and> valid_match w (nameSelectors ! k))"
  from s v have ex: "\<exists>k. k < length nameSelectors \<and> valid_match w (nameSelectors ! k)"
    by (auto simp: in_set_conv_nth)
  then have j: "j < length nameSelectors" and vj: "valid_match w (nameSelectors ! j)"
    unfolding j_def by (metis (mono_tags, lifting) LeastI_ex)+
  have least: "\<not> valid_match w (nameSelectors ! k)" if "k < j" for k
  proof -
    from that have "\<not> (k < length nameSelectors \<and> valid_match w (nameSelectors ! k))"
      unfolding j_def by (rule not_less_Least)
    with that j show ?thesis by simp
  qed
  from vj obtain t where t: "document_querySelector w (nameSelectors ! j) = Some t"
    and vt: "valid_name (str_trim t)"
    by (auto simp: valid_match_def split: option.splits)
  have "fst (selector_loop 0 w) = Some (str_trim t)"
    using j t vt least by (intro selector_loop_first [of j]) simp_all
  then have "fst (getRestaurantNameOnly w) = Inr (Some (str_trim t))"
    by (simp add: getRestaurantNameOnly_result)
  with False show ?thesis by simp
qed

theorem raises_exactly_on_malformed_segment_witness:
  "fst (getRestaurantNameOnly truncated_page) = Inl URIError \<and>
   fst (getRestaurantNameOnly nowhere_page) \<noteq> Inl URIError"
proof -
  have "\<forall>s\<in>set nameSelectors. \<not> valid_match truncated_page s"
    by (rule no_element_no_valid_match) (simp add: truncated_page_def)
  moreover have "title_name (document_title truncated_page) = None"
    by code_simp
  moreover have "placeMatch (location_href truncated_page) = Some (lit ''Caf%C3'')"
    by code_simp
  moreover have "decodeURIComponent (lit ''Caf%C3'') = Inl URIError"
    by code_simp
  ultimately have "fst (getRestaurantNameOnly truncated_page) = Inl URIError"
    by (simp add: raises_exactly_on_malformed_segment)
  moreover have "placeMatch (location_href nowhere_page) = None"
    by code_simp
  then have "fst (getRestaurantNameOnly nowhere_page) \<noteq> Inl URIError"
    by (simp add: raises_exactly_on_malformed_segment)
  ultimately show ?thesis by simp
qed

subsection \<open>C3: the first valid selector wins\<close>

text \<open>
  C3: when the selector at index \<open>j\<close> of the list matches an element whose trimmed text
  passes the filter, and no selector before it has a valid match, the function returns
  that trimmed text, whatever the selectors after it match.
\<close>

theorem first_valid_selector_wins:
  assumes "j < length nameSelectors"
    and "document_querySelector w (nameSelectors ! j) = Some t"
    and "valid_name (str_trim t)"
    and "\<forall>s\<in>set (take j nameSelectors). \<not> valid_match w s"
  shows "fst (getRestaurantNameOnly w) = Inr (Some (str_trim t))"
proof -
  have "\<not> valid_match w (nameSelectors ! k)" if "k < j" for k
  proof -
    from that assms(1) have "nameSelectors ! k \<in> set (take j nameSelectors)"
      by (auto simp: in_set_conv_nth intro!: exI [of _ k])
    with assms(4) show ?thesis by blast
  qed
  with assms(1-3) have "fst (selector_loop 0 w) = Some (str_trim t)"
    by (intro selector_loop_first [of j]) simp_all
  then show ?thesis
    by (simp add: getRestaurantNameOnly_result)
qed

theorem first_valid_selector_wins_witness:
  "valid_match two_match_page (nameSelectors ! 7) \<and>
   valid_match two_match_page (nameSelectors ! 9) \<and>
   fst (getRestaurantNameOnly two_match_page) = Inr (Some (lit ''Luigi's Pizzeria''))"
proof -
  have j: "7 < length nameSelectors"
    by (simp add: nameSelectors_def)
  have t: "document_querySelector two_match_page (nameSelectors ! 7) = Some (lit ''  Luigi's Pizzeria '')"
    by code_simp
  have trim: "str_trim (lit ''  Luigi's Pizzeria '') = lit ''Luigi's Pizzeria''"
    by code_simp
  have v: "valid_name (str_trim (lit ''  Luigi's Pizzeria ''))"
    by code_simp
  have before: "\<forall>s\<in>set (take 7 nameSelectors). \<not> valid_match two_match_page s"
    by code_simp
  have "valid_match two_match_page (nameSelectors ! 7)"
    by code_simp
  moreover have "valid_match two_match_page (nameSelectors ! 9)"
    by code_simp
  ultimately show ?thesis
    using first_valid_selector_wins [OF j t v before] trim by simp
qed

subsection \<open>C4: what the filter rejects\<close>

text \<open>
  C4: the filter rejects a candidate exactly when it contains \<^verbatim>\<open>Google Maps\<close>,
  \<^verbatim>\<open>Directions\<close> or \<^verbatim>\<open>Reviews\<close>, or has at most 2 or at least 100 code units; and on a
  page where no selector has a valid match (every matched text is rejected), the result
  of the function is the result of the title fallback.
\<close>

theorem boilerplate_falls_through_to_title:
  "(\<not> valid_name name \<longleftrightarrow>
      str_includes name (lit ''Google Maps'') \<or> str_includes name (lit ''Directions'') \<or>
      str_includes name (lit ''Reviews'') \<or> length name \<le> 2 \<or> length name \<ge> 100) \<and>
   ((\<forall>s\<in>set nameSelectors. \<not> valid_match w s) \<longrightarrow>
      fst (getRestaurantNameOnly w) = fst (title_fallback w))"
proof
  show "\<not> valid_name name \<longleftrightarrow>
      str_includes name (lit ''Google Maps'') \<or> str_includes name (lit ''Directions'') \<or>
      str_includes name (lit ''Reviews'') \<or> length name \<le> 2 \<or> length name \<ge> 100"
    by (cases name) (auto simp: valid_name_def)
  show "(\<forall>s\<in>set nameSelectors. \<not> valid_match w s) \<longrightarrow>
      fst (getRestaurantNameOnly w) = fst (title_fallback w)"
    by (simp add: no_valid_match_result)
qed

theorem boilerplate_falls_through_to_title_witness:
  "\<not> valid_name (lit ''Reviews'') \<and> \<not> valid_name (lit ''A'') \<and>
   \<not> valid_name (replicate 150 0x61) \<and>
   fst (getRestaurantNameOnly boilerplate_page) = fst (title_fallback boilerplate_page) \<and>
   fst (getRestaurantNameOnly boilerplate_page) = Inr (Some (lit ''Luigi's Pizzeria''))"
proof -
  have r: "str_includes (lit ''Reviews'') (lit ''Reviews'')"
    by code_simp
  have a: "length (lit ''A'') \<le> 2"
    by code_simp
  have l: "length (replicate 150 (0x61::nat)) \<ge> 100"
    by simp
  have no: "\<forall>s\<in>set nameSelectors. \<not> valid_match boilerplate_page s"
    by code_simp
  have t: "title_name (document_title boilerplate_page) = Some (lit ''Luigi's Pizzeria'')"
    by code_simp
  from boilerplate_falls_through_to_title [of "lit ''Reviews''" boilerplate_page] r
  have 1: "\<not> valid_name (lit ''Reviews'')"
    by blast
  from boilerplate_falls_through_to_title [of "lit ''A''" boilerplate_page] a
  have 2: "\<not> valid_name (lit ''A'')"
    by blast
  from boilerplate_falls_through_to_title [of "replicate 150 0x61" boilerplate_page] l
  have 3: "\<not> valid_name (replicate 150 0x61)"
    by blast
  from boilerplate_falls_through_to_title [of "[]" boilerplate_page] no
  have 4: "fst (getRestaurantNameOnly boilerplate_page) = fst (title_fallback boilerplate_page)"
    by blast
  with t have "fst (getRestaurantNameOnly boilerplate_page) = Inr (Some (lit ''Luigi's Pizzeria''))"
    by (simp add: title_fallback_result)
  with 1 2 3 4 show ?thesis
    by simp
qed

subsection \<open>C5: the name in the address\<close>

text \<open>
  The claim says that on a page without a valid structural match whose title gives no
  name, an address with a place segment gives the decoded segment. The segment
  \<^verbatim>\<open>Caf%E9+Roma\<close> (an e with acute accent escaped in Latin-1) is not the escape of
  well-formed UTF-8: on such a page the function returns nothing, it throws.
\<close>

theorem latin1_escape_segment_throws:
  "document_querySelector latin1_place_page = no_element \<and>
   title_name (document_title latin1_place_page) = None \<and>
   placeMatch (location_href latin1_place_page) = Some (lit ''Caf%E9+Roma'') \<and>
   fst (getRestaurantNameOnly latin1_place_page) = Inl URIError"
proof -
  have q: "document_querySelector latin1_place_page = no_element"
    by (simp add: latin1_place_page_def)
  then have no: "\<forall>s\<in>set nameSelectors. \<not> valid_match latin1_place_page s"
    by (rule no_element_no_valid_match)
  have t: "title_name (document_title latin1_place_page) = None"
    by code_simp
  have m: "placeMatch (location_href latin1_place_page) = Some (lit ''Caf%E9+Roma'')"
    by code_simp
  have d: "decodeURIComponent (lit ''Caf%E9+Roma'') = Inl URIError"
    by code_simp
  from no t m d have "fst (getRestaurantNameOnly latin1_place_page) = Inl URIError"
    by (simp add: no_valid_match_result title_fallback_result url_extraction_result)
  with q t m show ?thesis
    by simp
qed

text \<open>
  C5, as amended: on a page without a valid structural match whose title gives no name
  and whose address has a place segment, the function returns the decoded segment with
  every plus sign replaced by a space when \<^verbatim>\<open>decodeURIComponent\<close> returns on the
  segment, and throws what \<^verbatim>\<open>decodeURIComponent\<close> throws otherwise. For the address
  \<^verbatim>\<open>https://www.google.com/maps/place/Luigi%27s+Pizzeria/@40.7,-74.0\<close> the result is
  \<^verbatim>\<open>Luigi's Pizzeria\<close>; for a segment with escapes of two, three and four octets,
  \<^verbatim>\<open>Caf%C3%A9+%E2%82%AC+%F0%9F%8D%95\<close>, it is \<^verbatim>\<open>Caf\<close>, U+00E9, a space, U+20AC, a
  space and the surrogate pair U+D83C U+DF55 of U+1F355.
\<close>

theorem address_fallback_decodes_segment:
  assumes "\<forall>s\<in>set nameSelectors. \<not> valid_match w s"
    and "title_name (document_title w) = None"
  shows "(placeMatch (location_href w) = Some segment \<longrightarrow>
            fst (getRestaurantNameOnly w) =
              (case decodeURIComponent segment of
                 Inl e \<Rightarrow> Inl e
               | Inr decoded \<Rightarrow> Inr (Some (replace_plus decoded)))) \<and>
         (location_href w = lit ''https://www.google.com/maps/place/Luigi%27s+Pizzeria/@40.7,-74.0'' \<longrightarrow>
            fst (getRestaurantNameOnly w) = Inr (Some (lit ''Luigi's Pizzeria''))) \<and>
         (location_href w =
            lit ''https://www.google.com/maps/place/Caf%C3%A9+%E2%82%AC+%F0%9F%8D%95/@41.9,12.5'' \<longrightarrow>
            fst (getRestaurantNameOnly w) =
              Inr (Some (lit ''Caf'' @ [0xE9, 0x20, 0x20AC, 0x20, 0xD83C, 0xDF55])))"
proof -
  have run: "fst (getRestaurantNameOnly w) = fst (url_extraction w)"
    using assms by (simp add: no_valid_match_result title_fallback_result)
  have m: "placeMatch (lit ''https://www.google.com/maps/place/Luigi%27s+Pizzeria/@40.7,-74.0'') =
             Some (lit ''Luigi%27s+Pizzeria'')"
    by code_simp
  have d: "decodeURIComponent (lit ''Luigi%27s+Pizzeria'') = Inr (lit ''Luigi's+Pizzeria'')"
    by code_simp
  have r: "replace_plus (lit ''Luigi's+Pizzeria'') = lit ''Luigi's Pizzeria''"
    by code_simp
  have m': "placeMatch
              (lit ''https://www.google.com/maps/place/Caf%C3%A9+%E2%82%AC+%F0%9F%8D%95/@41.9,12.5'') =
              Some (lit ''Caf%C3%A9+%E2%82%AC+%F0%9F%8D%95'')"
    by code_simp
  have d': "decodeURIComponent (lit ''Caf%C3%A9+%E2%82%AC+%F0%9F%8D%95'') =
              Inr (lit ''Caf'' @ [0xE9, 0x2B, 0x20AC, 0x2B, 0xD83C, 0xDF55])"
    by code_simp
  have r': "replace_plus (lit ''Caf'' @ [0xE9, 0x2B, 0x20AC, 0x2B, 0xD83C, 0xDF55]) =
              lit ''Caf'' @ [0xE9, 0x20, 0x20AC, 0x20, 0xD83C, 0xDF55]"
    by code_simp
  have "placeMatch (location_href w) = Some segment \<longrightarrow>
          fst (getRestaurantNameOnly w) =
            (case decodeURIComponent segment of
               Inl e \<Rightarrow> Inl e
             | Inr decoded \<Rightarrow> Inr (Some (replace_plus decoded)))"
    by (simp add: run url_extraction_result)
  moreover have "location_href w =
      lit ''https://www.google.com/maps/place/Luigi%27s+Pizzeria/@40.7,-74.0'' \<longrightarrow>
      fst (getRestaurantNameOnly w) = Inr (Some (lit ''Luigi's Pizzeria''))"
    by (simp add: run url_extraction_result m d r)
  moreover have "location_href w =
      lit ''https://www.google.com/maps/place/Caf%C3%A9+%E2%82%AC+%F0%9F%8D%95/@41.9,12.5'' \<longrightarrow>
      fst (getRestaurantNameOnly w) =
        Inr (Some (lit ''Caf'' @ [0xE9, 0x20, 0x20AC, 0x20, 0xD83C, 0xDF55]))"
    using m' d' r' by (simp add: run url_extraction_result)
  ultimately show ?thesis
    by blast
qed

theorem address_fallback_decodes_segment_witness:
  "fst (getRestaurantNameOnly luigi_place_page) = Inr (Some (lit ''Luigi's Pizzeria'')) \<and>
   fst (getRestaurantNameOnly utf8_place_page) =
     Inr (Some (lit ''Caf'' @ [0xE9, 0x20, 0x20AC, 0x20, 0xD83C, 0xDF55])) \<and>
   fst (getRestaurantNameOnly latin1_place_page) = Inl URIError"
proof -
  have no: "\<forall>s\<in>set nameSelectors. \<not> valid_match luigi_place_page s"
    by (rule no_element_no_valid_match) (simp add: luigi_place_page_def)
  have t: "title_name (document_title luigi_place_page) = None"
    by code_simp
  have h: "location_href luigi_place_page =
             lit ''https://www.google.com/maps/place/Luigi%27s+Pizzeria/@40.7,-74.0''"
    by (simp add: luigi_place_page_def)
  have no': "\<forall>s\<in>set nameSelectors. \<not> valid_match utf8_place_page s"
    by (rule no_element_no_valid_match) (simp add: utf8_place_page_def)
  have t': "title_name (document_title utf8_place_page) = None"
    by code_simp
  have m': "placeMatch (location_href utf8_place_page) =
              Some (lit ''Caf%C3%A9+%E2%82%AC+%F0%9F%8D%95'')"
    by code_simp
  have d': "decodeURIComponent (lit ''Caf%C3%A9+%E2%82%AC+%F0%9F%8D%95'') =
              Inr (lit ''Caf'' @ [0xE9, 0x2B, 0x20AC, 0x2B, 0xD83C, 0xDF55])"
    by code_simp
  have r': "replace_plus (lit ''Caf'' @ [0xE9, 0x2B, 0x20AC, 0x2B, 0xD83C, 0xDF55]) =
              lit ''Caf'' @ [0xE9, 0x20, 0x20AC, 0x20, 0xD83C, 0xDF55]"
    by code_simp
  have no'': "\<forall>s\<in>set nameSelectors. \<not> valid_match latin1_place_page s"
    by (rule no_element_no_valid_match) (simp add: latin1_place_page_def)
  have t'': "title_name (document_title latin1_place_page) = None"
    by code_simp
  have m'': "placeMatch (location_href latin1_place_page) = Some (lit ''Caf%E9+Roma'')"
    by code_simp
  have d'': "decodeURIComponent (lit ''Caf%E9+Roma'') = Inl URIError"
    by code_simp
  from address_fallback_decodes_segment [OF no t] h
  have 1: "fst (getRestaurantNameOnly luigi_place_page) = Inr (Some (lit ''Luigi's Pizzeria''))"
    by blast
  from address_fallback_decodes_segment [OF no' t', of "lit ''Caf%C3%A9+%E2%82%AC+%F0%9F%8D%95''"] m'
  have "fst (getRestaurantNameOnly utf8_place_page) =
          (case decodeURIComponent (lit ''Caf%C3%A9+%E2%82%AC+%F0%9F%8D%95'') of
             Inl e \<Rightarrow> Inl e
           | Inr decoded \<Rightarrow> Inr (Some (replace_plus decoded)))"
    by blast
  with d' r'
  have 2: "fst (getRestaurantNameOnly utf8_place_page) =
             Inr (Some (lit ''Caf'' @ [0xE9, 0x20, 0x20AC, 0x20, 0xD83C, 0xDF55]))"
    by simp
  from address_fallback_decodes_segment [OF no'' t'', of "lit ''Caf%E9+Roma''"] m''
  have "fst (getRestaurantNameOnly latin1_place_page) =
          (case decodeURIComponent (lit ''Caf%E9+Roma'') of
             Inl e \<Rightarrow> Inl e
           | Inr decoded \<Rightarrow> Inr (Some (replace_plus decoded)))"
    by blast
  with d'' have 3: "fst (getRestaurantNameOnly latin1_place_page) = Inl URIError"
    by simp
  from 1 2 3 show ?thesis
    by simp
qed

subsection \<open>C6: the title that is the brand marker\<close>

text \<open>
  C6: on a page without a valid structural match whose title is exactly
  \<^verbatim>\<open>Google Maps\<close>, the title gives no name and the result is the one of the extraction
  from the address.
\<close>

theorem marker_title_proceeds_to_address:
  assumes "\<forall>s\<in>set nameSelectors. \<not> valid_match w s"
    and "document_title w = lit ''Google Maps''"
  shows "title_name (document_title w) = None \<and>
         fst (getRestaurantNameOnly w) = fst (url_extraction w)"
proof -
  have "str_includes (lit ''Google Maps'') (lit ''Google Maps'')"
    by code_simp
  with assms(2) have "title_name (document_title w) = None"
    by (simp add: title_name_marker)
  with assms(1) show ?thesis
    by (simp add: no_valid_match_result title_fallback_result)
qed

theorem marker_title_proceeds_to_address_witness:
  "fst (getRestaurantNameOnly marker_title_page) = fst (url_extraction marker_title_page) \<and>
   fst (getRestaurantNameOnly marker_title_page) = Inr (Some (lit ''Blue Bottle''))"
proof -
  have no: "\<forall>s\<in>set nameSelectors. \<not> valid_match marker_title_page s"
    by (rule no_element_no_valid_match) (simp add: marker_title_page_def)
  have t: "document_title marker_title_page = lit ''Google Maps''"
    by (simp add: marker_title_page_def)
  have "placeMatch (location_href marker_title_page) = Some (lit ''Blue+Bottle'')"
    by code_simp
  moreover have "decodeURIComponent (lit ''Blue+Bottle'') = Inr (lit ''Blue+Bottle'')"
    by code_simp
  moreover have "replace_plus (lit ''Blue+Bottle'') = lit ''Blue Bottle''"
    by code_simp
  ultimately have "fst (url_extraction marker_title_page) = Inr (Some (lit ''Blue Bottle''))"
    by (simp add: url_extraction_result)
  with marker_title_proceeds_to_address [OF no t] show ?thesis
    by simp
qed

subsection \<open>C7: absence\<close>

text \<open>
  C7: when no selector matches an element, the title is \<^verbatim>\<open>Google Maps\<close> and the address
  has no place segment, the function returns \<^verbatim>\<open>null\<close>, not the empty string.
\<close>

theorem all_stages_fail_gives_null:
  assumes "\<forall>s\<in>set nameSelectors. document_querySelector w s = None"
    and "document_title w = lit ''Google Maps''"
    and "placeMatch (location_href w) = None"
  shows "fst (getRestaurantNameOnly w) = Inr None \<and>
         fst (getRestaurantNameOnly w) \<noteq> Inr (Some [])"
proof -
  from assms(1) have no: "\<forall>s\<in>set nameSelectors. \<not> valid_match w s"
    by (simp add: valid_match_def)
  have "str_includes (lit ''Google Maps'') (lit ''Google Maps'')"
    by code_simp
  with assms(2) have "title_name (document_title w) = None"
    by (simp add: title_name_marker)
  with no assms(3) show ?thesis
    by (simp add: no_valid_match_result title_fallback_result url_extraction_result)
qed

theorem all_stages_fail_gives_null_witness:
  "fst (getRestaurantNameOnly nowhere_page) = Inr None"
proof -
  have no: "\<forall>s\<in>set nameSelectors. document_querySelector nowhere_page s = None"
    by (simp add: nowhere_page_def no_element_def)
  have t: "document_title nowhere_page = lit ''Google Maps''"
    by (simp add: nowhere_page_def)
  have h: "placeMatch (location_href nowhere_page) = None"
    by code_simp
  from all_stages_fail_gives_null [OF no t h] show ?thesis
    by simp
qed

subsection \<open>C8: a read-only function of the page\<close>

text \<open>
  C8: a call leaves the environment as it was but for messages appended to the console;
  a second call on the environment the first one leaves gives the same result; and the
  result is the same on any two environments with the same document, title and address.
\<close>

theorem reads_page_writes_console_only:
  "(\<exists>l. snd (getRestaurantNameOnly w) = w\<lparr>console := console w @ l\<rparr>) \<and>
   fst (getRestaurantNameOnly (snd (getRestaurantNameOnly w))) = fst (getRestaurantNameOnly w) \<and>
   (document_querySelector w' = document_querySelector w \<and>
    document_title w' = document_title w \<and>
    location_href w' = location_href w \<longrightarrow>
      fst (getRestaurantNameOnly w') = fst (getRestaurantNameOnly w))"
proof (intro conjI impI)
  show "\<exists>l. snd (getRestaurantNameOnly w) = w\<lparr>console := console w @ l\<rparr>"
    by (rule getRestaurantNameOnly_appends)
  then obtain l where "snd (getRestaurantNameOnly w) = w\<lparr>console := console w @ l\<rparr>"
    by blast
  then show "fst (getRestaurantNameOnly (snd (getRestaurantNameOnly w))) =
             fst (getRestaurantNameOnly w)"
    by (intro getRestaurantNameOnly_cong) simp_all
next
  assume "document_querySelector w' = document_querySelector w \<and>
          document_title w' = document_title w \<and> location_href w' = location_href w"
  then show "fst (getRestaurantNameOnly w') = fst (getRestaurantNameOnly w)"
    by (intro getRestaurantNameOnly_cong) simp_all
qed

theorem reads_page_writes_console_only_witness:
  "console logged_page \<noteq> console luigi_place_page \<and>
   fst (getRestaurantNameOnly logged_page) = fst (getRestaurantNameOnly luigi_place_page) \<and>
   fst (getRestaurantNameOnly (snd (getRestaurantNameOnly luigi_place_page))) =
     fst (getRestaurantNameOnly luigi_place_page)"
proof -
  have "document_querySelector logged_page = document_querySelector luigi_place_page \<and>
        document_title logged_page = document_title luigi_place_page \<and>
        location_href logged_page = location_href luigi_place_page"
    by (simp add: logged_page_def)
  moreover have "console logged_page \<noteq> console luigi_place_page"
    by (simp add: logged_page_def luigi_place_page_def page_def)
  ultimately show ?thesis
    using reads_page_writes_console_only [of luigi_place_page logged_page] by blast
qed

subsection \<open>C9: the filter is applied to structural candidates only\<close>

text \<open>
  C9: on pages where no selector matches, the title fallback returns a title that
  contains \<^verbatim>\<open>Directions\<close> and \<^verbatim>\<open>Reviews\<close> and a title of 120 code units, and the
  extraction from the address returns \<^verbatim>\<open>Reviews\<close> and a name of 120 code units; the
  filter rejects each of them.
\<close>

theorem fallback_results_are_not_filtered:
  "document_querySelector directions_title_page = no_element \<and>
   fst (getRestaurantNameOnly directions_title_page) = Inr (Some (lit ''Directions and Reviews'')) \<and>
   \<not> valid_name (lit ''Directions and Reviews'') \<and>
   document_querySelector long_title_page = no_element \<and>
   fst (getRestaurantNameOnly long_title_page) = Inr (Some (replicate 120 0x61)) \<and>
   \<not> valid_name (replicate 120 0x61) \<and>
   document_querySelector reviews_place_page = no_element \<and>
   fst (getRestaurantNameOnly reviews_place_page) = Inr (Some (lit ''Reviews'')) \<and>
   \<not> valid_name (lit ''Reviews'') \<and>
   document_querySelector long_place_page = no_element \<and>
   fst (getRestaurantNameOnly long_place_page) = Inr (Some (replicate 120 0x61))"
proof -
  have no: "fst (getRestaurantNameOnly w) = fst (title_fallback w)"
    if "document_querySelector w = no_element" for w :: world
    using that by (intro no_valid_match_result no_element_no_valid_match)
  have q: "document_querySelector directions_title_page = no_element"
    "document_querySelector long_title_page = no_element"
    "document_querySelector reviews_place_page = no_element"
    "document_querySelector long_place_page = no_element"
    by (simp_all add: directions_title_page_def long_title_page_def reviews_place_page_def
        long_place_page_def)
  have t1: "title_name (document_title directions_title_page) = Some (lit ''Directions and Reviews'')"
    by code_simp
  have v1: "\<not> valid_name (lit ''Directions and Reviews'')"
    by code_simp
  have t2: "title_name (document_title long_title_page) = Some (replicate 120 0x61)"
    by code_simp
  have v2: "\<not> valid_name (replicate 120 0x61)"
    by code_simp
  have t3: "title_name (document_title reviews_place_page) = None"
    by code_simp
  have m3: "placeMatch (location_href reviews_place_page) = Some (lit ''Reviews'')"
    by code_simp
  have d3: "decodeURIComponent (lit ''Reviews'') = Inr (lit ''Reviews'')"
    by code_simp
  have r3: "replace_plus (lit ''Reviews'') = lit ''Reviews''"
    by code_simp
  have v3: "\<not> valid_name (lit ''Reviews'')"
    by code_simp
  have t4: "title_name (document_title long_place_page) = None"
    by code_simp
  have m4: "placeMatch (location_href long_place_page) = Some (replicate 120 0x61)"
    by code_simp
  have d4: "decodeURIComponent (replicate 120 0x61) = Inr (replicate 120 0x61)"
    by code_simp
  have r4: "replace_plus (replicate 120 0x61) = replicate 120 0x61"
    by code_simp
  have "fst (getRestaurantNameOnly directions_title_page) = Inr (Some (lit ''Directions and Reviews''))"
    by (simp add: no q title_fallback_result t1)
  moreover have "fst (getRestaurantNameOnly long_title_page) = Inr (Some (replicate 120 0x61))"
    by (simp add: no q title_fallback_result t2)
  moreover have "fst (getRestaurantNameOnly reviews_place_page) = Inr (Some (lit ''Reviews''))"
    by (simp add: no q title_fallback_result url_extraction_result t3 m3 d3 r3)
  moreover have "fst (getRestaurantNameOnly long_place_page) = Inr (Some (replicate 120 0x61))"
    by (simp add: no q title_fallback_result url_extraction_result t4 m4 d4 r4)
  ultimately show ?thesis
    using q v1 v2 v3 by simp
qed

subsection \<open>C10: the name from the address is not trimmed\<close>

text \<open>
  C10: a place segment is never empty, and when the function returns the name from the
  address that name is not empty either; but for the address
  \<^verbatim>\<open>https://www.google.com/maps/place/+/@40.7,-74.0\<close> the function returns a single
  space, which \<^verbatim>\<open>trim\<close> would make empty.
\<close>

theorem address_result_nonempty_untrimmed:
  "((\<forall>s\<in>set nameSelectors. \<not> valid_match w s) \<and>
    title_name (document_title w) = None \<and>
    placeMatch (location_href w) = Some segment \<longrightarrow>
      segment \<noteq> [] \<and>
      (fst (getRestaurantNameOnly w) = Inl URIError \<or>
       (\<exists>name. fst (getRestaurantNameOnly w) = Inr (Some name) \<and> name \<noteq> []))) \<and>
   fst (getRestaurantNameOnly plus_page) = Inr (Some (lit '' '')) \<and>
   str_trim (lit '' '') = []"
proof (intro conjI impI)
  assume a: "(\<forall>s\<in>set nameSelectors. \<not> valid_match w s) \<and>
    title_name (document_title w) = None \<and> placeMatch (location_href w) = Some segment"
  then show seg: "segment \<noteq> []"
    by (auto dest: placeMatch_nonempty)
  from a have run: "fst (getRestaurantNameOnly w) =
      (case decodeURIComponent segment of
         Inl e \<Rightarrow> Inl e
       | Inr decoded \<Rightarrow> Inr (Some (replace_plus decoded)))"
    by (simp add: no_valid_match_result title_fallback_result url_extraction_result)
  show "fst (getRestaurantNameOnly w) = Inl URIError \<or>
        (\<exists>name. fst (getRestaurantNameOnly w) = Inr (Some name) \<and> name \<noteq> [])"
  proof (cases "decodeURIComponent segment")
    case (Inl e)
    with run show ?thesis
      by (cases e) simp
  next
    case (Inr decoded)
    from Inr seg have "decoded \<noteq> []"
      by (rule decodeURIComponent_nonempty)
    with run Inr show ?thesis
      by (simp add: replace_plus_def)
  qed
next
  have "\<forall>s\<in>set nameSelectors. \<not> valid_match plus_page s"
    by (rule no_element_no_valid_match) (simp add: plus_page_def)
  moreover have "title_name (document_title plus_page) = None"
    by code_simp
  moreover have "placeMatch (location_href plus_page) = Some (lit ''+'')"
    by code_simp
  moreover have "decodeURIComponent (lit ''+'') = Inr (lit ''+'')"
    by code_simp
  moreover have "replace_plus (lit ''+'') = lit '' ''"
    by code_simp
  ultimately show "fst (getRestaurantNameOnly plus_page) = Inr (Some (lit '' ''))"
    by (simp add: no_valid_match_result title_fallback_result url_extraction_result)
next
  show "str_trim (lit '' '') = []"
    by code_simp
qed

theorem address_result_nonempty_untrimmed_witness:
  "placeMatch (location_href plus_page) = Some (lit ''+'') \<and> lit ''+'' \<noteq> [] \<and>
   fst (getRestaurantNameOnly plus_page) = Inr (Some (lit '' '')) \<and>
   lit '' '' \<noteq> [] \<and> str_trim (lit '' '') = []"
proof -
  have no: "\<forall>s\<in>set nameSelectors. \<not> valid_match plus_page s"
    by (rule no_element_no_valid_match) (simp add: plus_page_def)
  have t: "title_name (document_title plus_page) = None"
    by code_simp
  have m: "placeMatch (location_href plus_page) = Some (lit ''+'')"
    by code_simp
  have "lit '' '' \<noteq> []"
    by (simp add: lit_def)
  with address_result_nonempty_untrimmed [of plus_page "lit ''+''"] no t m show ?thesis
    by blast
qed

end
